theory Spec2Isabelle
  imports Complex_Main
begin

section \<open>JavaScript values of static/app.js\<close>

text \<open>
  The browser code under verification (static/app.js) works on values decoded from JSON
  payloads and on DOM strings. A Number is modelled as NaN, one of the two infinities, or a
  finite value carried by a real. Multiplication and division round the exact result to the
  nearest binary64 value, ties to even, and overflow to an infinity, as IEEE 754 does;
  addition, subtraction, \<open>Math.abs\<close> and \<open>Math.round\<close> are taken on the carried reals. The
  sign of zero is outside the model.
  A scalar value is undefined (a missing property), null, a boolean, a Number or a string.
  Strings are lists of bytes, the UTF-8 encoding of the text; case mapping is that of ASCII.
\<close>

datatype jsnum = NaN | PosInf | NegInf | Fin real

datatype jsval = JUndefined | JNull | JBool bool | JNum jsnum | JStr string

text \<open>
  Built-ins of the host that the source calls and that are not part of the repository:
  the conversion of a string to a Number (\<open>Number(s)\<close>), of a Number to a string
  (\<open>String(n)\<close>), and \<open>Number.prototype.toLocaleString("es-ES", ...)\<close> with the
  minimum and maximum number of fraction digits both set to the second argument.
\<close>

record host =
  StringToNumber :: "string \<Rightarrow> jsnum"
  NumberToString :: "jsnum \<Rightarrow> string"
  toLocaleString :: "real \<Rightarrow> nat \<Rightarrow> string"

fun truthy :: "jsval \<Rightarrow> bool" where
  "truthy JUndefined = False"
| "truthy JNull = False"
| "truthy (JBool b) = b"
| "truthy (JNum NaN) = False"
| "truthy (JNum (Fin x)) = (x \<noteq> 0)"
| "truthy (JNum n) = True"
| "truthy (JStr s) = (s \<noteq> [])"

fun ToNumber :: "host \<Rightarrow> jsval \<Rightarrow> jsnum" where
  "ToNumber H JUndefined = NaN"
| "ToNumber H JNull = Fin 0"
| "ToNumber H (JBool b) = Fin (if b then 1 else 0)"
| "ToNumber H (JNum n) = n"
| "ToNumber H (JStr s) = StringToNumber H s"

fun ToString :: "host \<Rightarrow> jsval \<Rightarrow> string" where
  "ToString H JUndefined = ''undefined''"
| "ToString H JNull = ''null''"
| "ToString H (JBool b) = (if b then ''true'' else ''false'')"
| "ToString H (JNum n) = NumberToString H n"
| "ToString H (JStr s) = s"

text \<open>\<open>a || b\<close>, \<open>a ?? b\<close> and \<open>a == null\<close>.\<close>

definition js_or :: "jsval \<Rightarrow> jsval \<Rightarrow> jsval" where
  "js_or a b = (if truthy a then a else b)"

definition is_nullish :: "jsval \<Rightarrow> bool" where
  "is_nullish v = (v = JNull \<or> v = JUndefined)"

definition js_coalesce :: "jsval \<Rightarrow> jsval \<Rightarrow> jsval" where
  "js_coalesce a b = (if is_nullish a then b else a)"

subsection \<open>String methods\<close>

text \<open>
  \<open>String.prototype.trim\<close> strips white space and line terminators from both ends:
  U+0009 to U+000D and U+0020 (one byte each), U+00A0 (two bytes), and U+1680, U+2000 to
  U+200A, U+2028, U+2029, U+202F, U+205F, U+3000 and U+FEFF (three bytes each).
\<close>

definition is_space :: "char \<Rightarrow> bool" where
  "is_space c = (c \<in> set [CHR 0x09, CHR 0x0A, CHR 0x0B, CHR 0x0C, CHR 0x0D, CHR 0x20])"

definition is_space2 :: "char \<Rightarrow> char \<Rightarrow> bool" where
  "is_space2 a b = (a = CHR 0xC2 \<and> b = CHR 0xA0)"

definition is_space3 :: "char \<Rightarrow> char \<Rightarrow> char \<Rightarrow> bool" where
  "is_space3 a b c =
     ((a = CHR 0xE1 \<and> b = CHR 0x9A \<and> c = CHR 0x80)
      \<or> (a = CHR 0xE2 \<and> b = CHR 0x80 \<and>
          c \<in> set [CHR 0x80, CHR 0x81, CHR 0x82, CHR 0x83, CHR 0x84, CHR 0x85, CHR 0x86,
                    CHR 0x87, CHR 0x88, CHR 0x89, CHR 0x8A, CHR 0xA8, CHR 0xA9, CHR 0xAF])
      \<or> (a = CHR 0xE2 \<and> b = CHR 0x81 \<and> c = CHR 0x9F)
      \<or> (a = CHR 0xE3 \<and> b = CHR 0x80 \<and> c = CHR 0x80)
      \<or> (a = CHR 0xEF \<and> b = CHR 0xBB \<and> c = CHR 0xBF))"

fun trimStart :: "string \<Rightarrow> string" where
  "trimStart (a # b # c # s) =
     (if is_space a then trimStart (b # c # s)
      else if is_space2 a b then trimStart (c # s)
      else if is_space3 a b c then trimStart s
      else a # b # c # s)"
| "trimStart [a, b] =
     (if is_space a then trimStart [b] else if is_space2 a b then [] else [a, b])"
| "trimStart [a] = (if is_space a then [] else [a])"
| "trimStart [] = []"

text \<open>The same scan from the end, on the reversed text.\<close>

fun trimEnd_rev :: "string \<Rightarrow> string" where
  "trimEnd_rev (c # b # a # s) =
     (if is_space c then trimEnd_rev (b # a # s)
      else if is_space2 b c then trimEnd_rev (a # s)
      else if is_space3 a b c then trimEnd_rev s
      else c # b # a # s)"
| "trimEnd_rev [c, b] =
     (if is_space c then trimEnd_rev [b] else if is_space2 b c then [] else [c, b])"
| "trimEnd_rev [c] = (if is_space c then [] else [c])"
| "trimEnd_rev [] = []"

definition trimEnd :: "string \<Rightarrow> string" where
  "trimEnd s = rev (trimEnd_rev (rev s))"

definition trim :: "string \<Rightarrow> string" where
  "trim s = trimEnd (trimStart s)"

definition lower_char :: "char \<Rightarrow> char" where
  "lower_char c =
     (let n = (of_char c :: nat) in if 65 \<le> n \<and> n \<le> 90 then char_of (n + 32) else c)"

definition toLowerCase :: "string \<Rightarrow> string" where
  "toLowerCase s = map lower_char s"

subsection \<open>Number operations\<close>

text \<open>
  \<open>Number.isFinite\<close>, \<open>Number.isInteger\<close>, the comparisons \<open><\<close>, \<open><=\<close>, \<open>>\<close> (false as soon as
  one side is NaN), and \<open>+\<close>, \<open>-\<close>, \<open>*\<close>, \<open>/\<close>, \<open>Math.abs\<close>, \<open>Math.round\<close> on Numbers.
\<close>

fun isFinite :: "jsnum \<Rightarrow> bool" where
  "isFinite (Fin x) = True"
| "isFinite n = False"

fun isInteger :: "jsnum \<Rightarrow> bool" where
  "isInteger (Fin x) = (of_int \<lfloor>x\<rfloor> = x)"
| "isInteger n = False"

fun js_lt :: "jsnum \<Rightarrow> jsnum \<Rightarrow> bool" where
  "js_lt (Fin a) (Fin b) = (a < b)"
| "js_lt NaN n = False"
| "js_lt n NaN = False"
| "js_lt NegInf NegInf = False"
| "js_lt NegInf n = True"
| "js_lt (Fin a) PosInf = True"
| "js_lt n m = False"

fun js_le :: "jsnum \<Rightarrow> jsnum \<Rightarrow> bool" where
  "js_le (Fin a) (Fin b) = (a \<le> b)"
| "js_le NaN n = False"
| "js_le n NaN = False"
| "js_le NegInf n = True"
| "js_le n PosInf = True"
| "js_le n m = False"

definition js_gt :: "jsnum \<Rightarrow> jsnum \<Rightarrow> bool" where
  "js_gt a b = js_lt b a"

fun js_neg :: "jsnum \<Rightarrow> jsnum" where
  "js_neg NaN = NaN"
| "js_neg PosInf = NegInf"
| "js_neg NegInf = PosInf"
| "js_neg (Fin x) = Fin (- x)"

fun js_add :: "jsnum \<Rightarrow> jsnum \<Rightarrow> jsnum" where
  "js_add (Fin a) (Fin b) = Fin (a + b)"
| "js_add NaN n = NaN"
| "js_add n NaN = NaN"
| "js_add PosInf NegInf = NaN"
| "js_add NegInf PosInf = NaN"
| "js_add PosInf n = PosInf"
| "js_add NegInf n = NegInf"
| "js_add (Fin a) n = n"

definition js_sub :: "jsnum \<Rightarrow> jsnum \<Rightarrow> jsnum" where
  "js_sub a b = js_add a (js_neg b)"

fun sign_of :: "jsnum \<Rightarrow> real" where
  "sign_of NaN = 0"
| "sign_of PosInf = 1"
| "sign_of NegInf = - 1"
| "sign_of (Fin x) = sgn x"

definition inf_of_sign :: "real \<Rightarrow> jsnum" where
  "inf_of_sign s = (if 0 < s then PosInf else if s < 0 then NegInf else NaN)"

text \<open>
  The binary64 value nearest to a real, ties to even, as IEEE 754 rounds the exact result
  of \<open>*\<close> and \<open>/\<close>. \<open>binary_exponent a\<close> is the integer \<open>e\<close> with \<open>2^e \<le> a < 2^(e + 1)\<close> for
  \<open>a > 0\<close>; below \<open>2^-1022\<close> the spacing stays that of the subnormal numbers, and a result
  of magnitude \<open>2^1024\<close> or more is an infinity.
\<close>

function bit_length :: "int \<Rightarrow> int" where
  "bit_length n = (if n \<le> 0 then 0 else 1 + bit_length (n div 2))"
  by pat_completeness auto
termination
  by (relation "measure nat") auto

definition binary_exponent :: "real \<Rightarrow> int" where
  "binary_exponent a =
     (if 1 \<le> a then bit_length \<lfloor>a\<rfloor> - 1 else - bit_length (\<lceil>1 / a\<rceil> - 1))"

definition round_half_even :: "real \<Rightarrow> int" where
  "round_half_even q =
     (let f = \<lfloor>q\<rfloor>; d = q - of_int f
      in if d < 1 / 2 then f else if 1 / 2 < d then f + 1 else if even f then f else f + 1)"

definition binary64 :: "real \<Rightarrow> jsnum" where
  "binary64 x =
     (if x = 0 then Fin 0
      else let e = max (binary_exponent \<bar>x\<bar>) (- 1022);
               ulp = 2 powi (e - 52);
               y = of_int (round_half_even (x / ulp)) * ulp
           in if 2 powi 1024 \<le> \<bar>y\<bar> then (if 0 < x then PosInf else NegInf) else Fin y)"

fun js_mul :: "jsnum \<Rightarrow> jsnum \<Rightarrow> jsnum" where
  "js_mul (Fin a) (Fin b) = binary64 (a * b)"
| "js_mul NaN n = NaN"
| "js_mul n NaN = NaN"
| "js_mul n m = inf_of_sign (sign_of n * sign_of m)"

fun js_div :: "jsnum \<Rightarrow> jsnum \<Rightarrow> jsnum" where
  "js_div (Fin a) (Fin b) = (if b = 0 then inf_of_sign (sgn a) else binary64 (a / b))"
| "js_div NaN n = NaN"
| "js_div n NaN = NaN"
| "js_div (Fin a) n = Fin 0"
| "js_div n (Fin b) = inf_of_sign (sign_of n * (if b < 0 then - 1 else 1))"
| "js_div n m = NaN"

fun js_abs :: "jsnum \<Rightarrow> jsnum" where
  "js_abs NaN = NaN"
| "js_abs (Fin x) = Fin \<bar>x\<bar>"
| "js_abs n = PosInf"

fun js_round :: "jsnum \<Rightarrow> jsnum" where
  "js_round (Fin x) = Fin (of_int \<lfloor>x + 1 / 2\<rfloor>)"
| "js_round n = n"

subsection \<open>Number formatting helpers\<close>

text \<open>
  \<^verbatim>\<open>
  function formatLocaleNumber(value, digits = 0) {
    const num = Number(value);
    if (!Number.isFinite(num)) return "\<emdash>";
    return num.toLocaleString("es-ES", { useGrouping: "always",
      minimumFractionDigits: digits, maximumFractionDigits: digits });
  }
  function fmt3(x) {
    return x == null || Number.isNaN(x) ? "\<emdash>"
      : formatLocaleNumber(Math.round(x * 1000) / 1000, 3);
  }
  \<close>
  The placeholder is the em dash U+2014, three bytes in UTF-8.
\<close>

definition emdash :: string where
  "emdash = [CHR 0xE2, CHR 0x80, CHR 0x94]"

definition formatLocaleNumber :: "host \<Rightarrow> jsval \<Rightarrow> nat \<Rightarrow> string" where
  "formatLocaleNumber H v digits =
     (case ToNumber H v of Fin x \<Rightarrow> toLocaleString H x digits | _ \<Rightarrow> emdash)"

definition fmt3 :: "host \<Rightarrow> jsval \<Rightarrow> string" where
  "fmt3 H x =
     (if is_nullish x \<or> x = JNum NaN then emdash
      else formatLocaleNumber H
             (JNum (js_div (js_round (js_mul (ToNumber H x) (Fin 1000))) (Fin 1000))) 3)"

section \<open>Session type normalisation\<close>

text \<open>
  \<^verbatim>\<open>
  function normalizeSessionType(v) {
    const type = String(v || "").trim().toLowerCase();
    if (type === "mixta") return "pesas";
    if (type === "pesas") return "pesas";
    return "clase";
  }
  \<close>
\<close>

definition normalizeSessionType :: "host \<Rightarrow> jsval \<Rightarrow> string" where
  "normalizeSessionType H v =
     (let type = toLowerCase (trim (ToString H (js_or v (JStr ''''))))
      in if type = ''mixta'' then ''pesas''
         else if type = ''pesas'' then ''pesas''
         else ''clase'')"

section \<open>CSV cells of the incident download\<close>

text \<open>
  \<^verbatim>\<open>
  function csvCell(raw) {
    const text = String(raw ?? "");
    if (/[",\n]/.test(text)) {
      return `"${text.replace(/"/g, "\"\"")}"`;
    }
    return text;
  }
  \<close>
\<close>

definition dquote :: char where
  "dquote = CHR 0x22"

definition needs_quoting :: "string \<Rightarrow> bool" where
  "needs_quoting text = list_ex (\<lambda>c. c = dquote \<or> c = CHR '','' \<or> c = CHR 0x0A) text"

definition double_quotes :: "string \<Rightarrow> string" where
  "double_quotes text = concat (map (\<lambda>c. if c = dquote then [dquote, dquote] else [c]) text)"

definition csvCell :: "host \<Rightarrow> jsval \<Rightarrow> string" where
  "csvCell H raw =
     (let text = ToString H (js_coalesce raw (JStr ''''))
      in if needs_quoting text then [dquote] @ double_quotes text @ [dquote] else text)"

text \<open>
  The reader of a cell, written from the claim's words: when the cell is enclosed in double
  quotes, strip the outer pair and turn every doubled quote into one; otherwise the cell is
  the text itself.
\<close>

fun undouble :: "string \<Rightarrow> string" where
  "undouble (a # b # cs) =
     (if a = dquote \<and> b = dquote then dquote # undouble cs else a # undouble (b # cs))"
| "undouble cs = cs"

definition csvDecode :: "string \<Rightarrow> string" where
  "csvDecode cell =
     (if 2 \<le> length cell \<and> hd cell = dquote \<and> last cell = dquote
      then undouble (butlast (tl cell)) else cell)"

section \<open>Waist-to-hip ratio of a check-in row\<close>

text \<open>
  A check-in row is a JSON object whose properties hold scalars; a property that the
  object does not have reads as undefined.
  \<^verbatim>\<open>
  function computeWHR(r) {
    const w = Number(r.waist_cm);
    const h = Number(r.hip_cm);
    if (!Number.isFinite(w) || !Number.isFinite(h) || h <= 0) return "\<emdash>";
    return fmt3(w / h);
  }
  \<close>
\<close>

type_synonym jsobj = "string \<Rightarrow> jsval"

definition empty_obj :: jsobj where
  "empty_obj = (\<lambda>k. JUndefined)"

definition computeWHR :: "host \<Rightarrow> jsobj \<Rightarrow> string" where
  "computeWHR H r =
     (let w = ToNumber H (r ''waist_cm'');
          h = ToNumber H (r ''hip_cm'')
      in if \<not> isFinite w \<or> \<not> isFinite h \<or> js_le h (Fin 0) then emdash
         else fmt3 H (JNum (js_div w h)))"

section \<open>Check-in import: preview and apply\<close>

text \<open>
  An entry of \<open>payload.preview\<close> carries \<open>row_number\<close>, \<open>status\<close>, \<open>reason\<close> and the parsed
  \<open>row\<close>. The state of the import dialog is the module variable \<open>importPreviewRows\<close>, the
  \<open>disabled\<close> flag of the button \<open>importApplyBtn\<close> (None when the page has no such element)
  and whether the elements \<open>importPreviewBody\<close> and \<open>importPreviewWrap\<close> both exist. The
  HTML written into the table and the summary line are not part of the state. The function
  below takes the array \<open>rows\<close> that the first line of the source reads from the payload.
  \<^verbatim>\<open>
  function renderImportPreview(payload) {
    const rows = Array.isArray(payload?.preview) ? payload.preview : [];
    importPreviewRows = rows;
    renderImportSummary(summary);
    if (!importPreviewBody || !importPreviewWrap) return;
    if (!rows.length) {
      ...
      if (importApplyBtn) importApplyBtn.disabled = true;
      return;
    }
    importPreviewBody.innerHTML = rows.map(...).join("");
    importPreviewWrap.hidden = false;
    const validCount = rows.filter(
      (r) => String(r?.status || "").toLowerCase() === "valid").length;
    if (importApplyBtn) importApplyBtn.disabled = validCount === 0;
  }
  \<close>
\<close>

record preview_item =
  row_number :: jsval
  status :: jsval
  reason :: jsval
  row :: jsobj

record import_dialog =
  importPreviewRows :: "preview_item list"
  importApplyBtn :: "bool option"
  previewTable :: bool

definition is_valid_status :: "host \<Rightarrow> preview_item \<Rightarrow> bool" where
  "is_valid_status H r = (toLowerCase (ToString H (js_or (status r) (JStr ''''))) = ''valid'')"

definition set_disabled :: "bool \<Rightarrow> bool option \<Rightarrow> bool option" where
  "set_disabled d btn = (case btn of None \<Rightarrow> None | Some _ \<Rightarrow> Some d)"

definition renderImportPreview :: "host \<Rightarrow> preview_item list \<Rightarrow> import_dialog \<Rightarrow> import_dialog" where
  "renderImportPreview H rows ui =
     (let ui1 = ui\<lparr>importPreviewRows := rows\<rparr>
      in if \<not> previewTable ui1 then ui1
         else if rows = [] then ui1\<lparr>importApplyBtn := set_disabled True (importApplyBtn ui1)\<rparr>
         else let validCount = length (filter (is_valid_status H) rows)
              in ui1\<lparr>importApplyBtn := set_disabled (validCount = 0) (importApplyBtn ui1)\<rparr>)"

text \<open>
  \<^verbatim>\<open>
  async function applyDietImport() {
    const validRows = importPreviewRows
      .filter((r) => String(r?.status || "").toLowerCase() === "valid")
      .map((r) => ({ row_number: r.row_number, row: r.row }));
    if (!validRows.length) {
      showToast("Importacion CSV", "No hay filas validas para importar.");
      return;
    }
    const out = await postJSON("/api/diet/import/apply", { rows: validRows });
    ...
  }
  \<close>
  The result is the \<open>rows\<close> array of the request body, or None when no request is sent.
  The click handler of a disabled button does not run.
\<close>

record apply_row =
  apply_row_number :: jsval
  apply_row_data :: jsobj

definition to_apply_row :: "preview_item \<Rightarrow> apply_row" where
  "to_apply_row r = \<lparr>apply_row_number = row_number r, apply_row_data = row r\<rparr>"

definition applyDietImport :: "host \<Rightarrow> import_dialog \<Rightarrow> apply_row list option" where
  "applyDietImport H ui =
     (let validRows = map to_apply_row (filter (is_valid_status H) (importPreviewRows ui))
      in if validRows = [] then None else Some validRows)"

definition apply_enabled :: "import_dialog \<Rightarrow> bool" where
  "apply_enabled ui = (importApplyBtn ui = Some False)"

text \<open>The statuses that \<open>importStatusPill\<close> knows, as the server writes them.\<close>

definition known_statuses :: "string list" where
  "known_statuses = [''valid'', ''imported'', ''conflict'', ''invalid'']"

definition has_known_status :: "preview_item \<Rightarrow> bool" where
  "has_known_status r = list_ex (\<lambda>s. status r = JStr s) known_statuses"

section \<open>Adherence pill and adherence history\<close>

text \<open>
  \<^verbatim>\<open>
  function scoreMatches(value, expected) {
    return Math.abs(Number(value) - Number(expected)) < 0.001;
  }
  function planPillFromAdherenceScore(scoreValue, hasPlan) {
    if (!hasPlan) return { label: "Sin plan", tone: "warn" };
    if (scoreValue == null || scoreValue === "") return { label: "Pendiente", tone: "warn" };
    if (scoreMatches(scoreValue, 1)) return { label: "Cumplida", tone: "good" };
    if (scoreMatches(scoreValue, 0.5)) return { label: "Parcial", tone: "warn" };
    if (scoreMatches(scoreValue, 0)) return { label: "No cumplida", tone: "bad" };
    return { label: "Pendiente", tone: "warn" };
  }
  \<close>
\<close>

definition scoreMatches :: "host \<Rightarrow> jsval \<Rightarrow> real \<Rightarrow> bool" where
  "scoreMatches H v expected =
     js_lt (js_abs (js_sub (ToNumber H v) (Fin expected))) (Fin (1 / 1000))"

record pill =
  label :: string
  tone :: string

definition planPillFromAdherenceScore :: "host \<Rightarrow> jsval \<Rightarrow> jsval \<Rightarrow> pill" where
  "planPillFromAdherenceScore H scoreValue hasPlan =
     (if \<not> truthy hasPlan then \<lparr>label = ''Sin plan'', tone = ''warn''\<rparr>
      else if is_nullish scoreValue \<or> scoreValue = JStr '''' then \<lparr>label = ''Pendiente'', tone = ''warn''\<rparr>
      else if scoreMatches H scoreValue 1 then \<lparr>label = ''Cumplida'', tone = ''good''\<rparr>
      else if scoreMatches H scoreValue (1 / 2) then \<lparr>label = ''Parcial'', tone = ''warn''\<rparr>
      else if scoreMatches H scoreValue 0 then \<lparr>label = ''No cumplida'', tone = ''bad''\<rparr>
      else \<lparr>label = ''Pendiente'', tone = ''warn''\<rparr>)"

text \<open>
  \<^verbatim>\<open>
  const PLAN_ADHERENCE_WINDOW_CHOICES = [7, 15, 30];
  function parsePlanAdherenceWindow(raw, fallback = 15) {
    const n = Number(raw);
    if (Number.isInteger(n) && PLAN_ADHERENCE_WINDOW_CHOICES.includes(n)) return n;
    if (PLAN_ADHERENCE_WINDOW_CHOICES.includes(Number(fallback))) return Number(fallback);
    return 15;
  }
  function formatPlanScore(v) {
    const num = Number(v);
    if (!Number.isFinite(num)) return "\<emdash>";
    return formatLocaleNumber(num, 2);
  }
  \<close>
\<close>

definition PLAN_ADHERENCE_WINDOW_CHOICES :: "jsnum list" where
  "PLAN_ADHERENCE_WINDOW_CHOICES = [Fin 7, Fin 15, Fin 30]"

definition parsePlanAdherenceWindow :: "host \<Rightarrow> jsval \<Rightarrow> jsval \<Rightarrow> jsnum" where
  "parsePlanAdherenceWindow H raw fallback =
     (let n = ToNumber H raw
      in if isInteger n \<and> n \<in> set PLAN_ADHERENCE_WINDOW_CHOICES then n
         else if ToNumber H fallback \<in> set PLAN_ADHERENCE_WINDOW_CHOICES then ToNumber H fallback
         else Fin 15)"

definition formatPlanScore :: "host \<Rightarrow> jsval \<Rightarrow> string" where
  "formatPlanScore H v =
     (let num = ToNumber H v
      in if \<not> isFinite num then emdash else formatLocaleNumber H (JNum num) 2)"

text \<open>
  The part of \<open>renderPlanAdherenceHistory\<close> that computes the figures of the period line:
  \<^verbatim>\<open>
    const history = day?.adherence_history || {};
    const windowDays = parsePlanAdherenceWindow(history.window_days, planAdherenceWindowDays);
    const items = Array.isArray(history.items) ? history.items : [];
    const scoredValues = items
      .map((item) => Number(item?.total_score))
      .filter((num) => Number.isFinite(num));
    const scoredDays = Number(history.scored_days || 0);
    const totalDays = Number(history.total_days || windowDays);
    const periodAvg = scoredValues.length
      ? formatPlanScore(scoredValues.reduce((acc, num) => acc + num, 0) / scoredValues.length)
      : "\<emdash>";
  \<close>
\<close>

record adherence_item =
  item_log_date :: jsval
  diet_score :: jsval
  workout_score :: jsval
  total_score :: jsval

record adherence_history =
  window_days :: jsval
  items :: "adherence_item list"
  scored_days :: jsval
  total_days :: jsval

record period_figures =
  totalDays :: jsnum
  scoredDays :: jsnum
  periodAvg :: string

definition scoredValues :: "host \<Rightarrow> adherence_item list \<Rightarrow> jsnum list" where
  "scoredValues H its = filter isFinite (map (\<lambda>item. ToNumber H (total_score item)) its)"

definition renderPlanAdherenceHistory :: "host \<Rightarrow> jsnum \<Rightarrow> adherence_history \<Rightarrow> period_figures" where
  "renderPlanAdherenceHistory H planAdherenceWindowDays history =
     (let windowDays = parsePlanAdherenceWindow H (window_days history) (JNum planAdherenceWindowDays);
          vals = scoredValues H (items history)
      in \<lparr>totalDays = ToNumber H (js_or (total_days history) (JNum windowDays)),
          scoredDays = ToNumber H (js_or (scored_days history) (JNum (Fin 0))),
          periodAvg =
            (if vals \<noteq> []
             then formatPlanScore H
                    (JNum (js_div (foldl js_add (Fin 0) vals) (Fin (real (length vals)))))
             else emdash)\<rparr>)"

section \<open>KPI delta\<close>

text \<open>
  \<open>drawKpiDelta\<close> is local to the summary renderer; \<open>buildKpiMetaHtml()\<close> is a closure over
  the baseline label of the payload and its result is taken as the parameter \<open>meta\<close>. A node
  is its class list and its content, set either through \<open>textContent\<close> or \<open>innerHTML\<close>.
  The four call sites pass literals for \<open>digits\<close>, \<open>unit\<close>, \<open>preferLower\<close> and \<open>stableEps\<close>.
  \<^verbatim>\<open>
  function drawKpiDelta(node, delta, digits, unit, preferLower, stableEps) {
    if (!node) return;
    node.classList.remove("good", "warn", "bad", "muted",
      "state-better", "state-equal", "state-worse", "state-muted");
    node.innerHTML = "";
    if (delta == null || Number.isNaN(Number(delta))) {
      node.textContent = "Sin comparativa previa";
      node.classList.add("state-muted");
      return;
    }
    const value = Number(delta);
    const isStable = Math.abs(value) <= stableEps;
    if (isStable) {
      node.innerHTML = `<span class="kpi-delta-main">Igual: sin cambios relevantes</span>${buildKpiMetaHtml()}`;
      node.classList.add("state-equal");
      return;
    }
    const sign = value > 0 ? "+" : "";
    const textVal = digits === 0 ? `${sign}${formatLocaleNumber(Math.round(value), 0)}`
                                 : `${sign}${formatLocaleNumber(value, digits)}`;
    const upIsGood = !preferLower;
    const isGood = value > 0 ? upIsGood : !upIsGood;
    const label = isGood ? "Mejor" : "Peor";
    node.innerHTML = `<span class="kpi-delta-main">${label}: ${textVal}${unit}</span>${buildKpiMetaHtml()}`;
    node.classList.add(isGood ? "state-better" : "state-worse");
  }
  \<close>
\<close>

datatype content = TextContent string | InnerHTML string

record kpi_node =
  classList :: "string list"
  node_content :: content

definition classList_remove :: "string list \<Rightarrow> string list \<Rightarrow> string list" where
  "classList_remove names cl = filter (\<lambda>c. c \<notin> set names) cl"

definition classList_add :: "string \<Rightarrow> string list \<Rightarrow> string list" where
  "classList_add name cl = (if name \<in> set cl then cl else cl @ [name])"

definition kpi_state_classes :: "string list" where
  "kpi_state_classes = [''good'', ''warn'', ''bad'', ''muted'',
     ''state-better'', ''state-equal'', ''state-worse'', ''state-muted'']"

definition kpi_main_open :: string where
  "kpi_main_open = ''<span class='' @ [CHR 0x22] @ ''kpi-delta-main'' @ [CHR 0x22] @ ''>''"

definition drawKpiDelta ::
  "host \<Rightarrow> string \<Rightarrow> kpi_node option \<Rightarrow> jsval \<Rightarrow> nat \<Rightarrow> string \<Rightarrow> bool \<Rightarrow> real \<Rightarrow> kpi_node option" where
  "drawKpiDelta H meta node delta digits unit preferLower stableEps =
     (case node of None \<Rightarrow> None
      | Some n0 \<Rightarrow>
        (let cl = classList_remove kpi_state_classes (classList n0)
         in if is_nullish delta \<or> ToNumber H delta = NaN
            then Some \<lparr>classList = classList_add ''state-muted'' cl,
                       node_content = TextContent ''Sin comparativa previa''\<rparr>
            else let v = ToNumber H delta
                 in if js_le (js_abs v) (Fin stableEps)
                    then Some \<lparr>classList = classList_add ''state-equal'' cl,
                               node_content = InnerHTML
                                 (kpi_main_open @ ''Igual: sin cambios relevantes</span>'' @ meta)\<rparr>
                    else let sign = (if js_gt v (Fin 0) then ''+'' else '''');
                             textVal = (if digits = 0
                                        then sign @ formatLocaleNumber H (JNum (js_round v)) 0
                                        else sign @ formatLocaleNumber H (JNum v) digits);
                             upIsGood = (\<not> preferLower);
                             isGood = (if js_gt v (Fin 0) then upIsGood else \<not> upIsGood);
                             label = (if isGood then ''Mejor'' else ''Peor'')
                         in Some \<lparr>classList = classList_add (if isGood then ''state-better'' else ''state-worse'') cl,
                                    node_content = InnerHTML
                                      (kpi_main_open @ label @ '': '' @ textVal @ unit
                                        @ ''</span>'' @ meta)\<rparr>))"

section \<open>Plan import reconciler\<close>

text \<open>
  Modelled from the spec: the plan import reconciler of the server. The server-side
  importer behind \<open>POST /api/plan/import/workout\<close> is not among the source files; the browser
  code only posts the file, and the end-to-end test only counts the sessions of a day and
  deletes session \<open>S01\<close>. The model follows the words of the specification: the reconciler
  consumes the accepted rows in file order, groups them by \<open>log_date\<close> preserving that order,
  assigns \<open>plan_session_id = "S" + zeroPad(positionWithinDate + 1, 2)\<close>, and ignores the
  exercises of a row whose \<open>session_type\<close> is \<open>clase\<close>.
\<close>

record plan_exercise =
  exercise_name :: string
  target_sets :: nat
  target_reps_min :: nat
  target_reps_max :: nat

record workout_plan_row =
  row_log_date :: string
  row_session_type :: string
  row_exercises :: "plan_exercise list"

record plan_workout_session =
  log_date :: string
  plan_session_id :: string
  session_type :: string
  exercises :: "plan_exercise list"

text \<open>Modelled from the spec: \<open>zeroPad\<close>, the decimal numeral padded with zeros on the left.\<close>

definition digit_char :: "nat \<Rightarrow> char" where
  "digit_char n = char_of (48 + n)"

fun decimal :: "nat \<Rightarrow> string" where
  "decimal n = (if n < 10 then [digit_char n] else decimal (n div 10) @ [digit_char (n mod 10)])"

definition zeroPad :: "nat \<Rightarrow> nat \<Rightarrow> string" where
  "zeroPad n width = replicate (width - length (decimal n)) (CHR ''0'') @ decimal n"

text \<open>
  Modelled from the spec: the session that the absent server-side reconciler stores for an
  accepted row at a given position within its date ("S" + zeroPad(positionWithinDate + 1, 2);
  exercises are ignored entirely when the session type is \<open>clase\<close>).
\<close>

definition make_session :: "nat \<Rightarrow> workout_plan_row \<Rightarrow> plan_workout_session" where
  "make_session positionWithinDate r =
     \<lparr>log_date = row_log_date r,
      plan_session_id = ''S'' @ zeroPad (positionWithinDate + 1) 2,
      session_type = row_session_type r,
      exercises = (if row_session_type r = ''clase'' then [] else row_exercises r)\<rparr>"

text \<open>
  Modelled from the spec: the pass of the absent server-side reconciler over the accepted
  rows in file order; \<open>seen\<close> holds the dates of the rows already consumed, so the position
  of a row within its date is the number of earlier rows with the same date.
\<close>

fun assign_sessions :: "string list \<Rightarrow> workout_plan_row list \<Rightarrow> plan_workout_session list" where
  "assign_sessions seen [] = []"
| "assign_sessions seen (r # rs) =
     make_session (count_list seen (row_log_date r)) r
       # assign_sessions (seen @ [row_log_date r]) rs"

text \<open>Modelled from the spec: the absent server-side workout plan import as a whole.\<close>

definition reconcile_workout :: "workout_plan_row list \<Rightarrow> plan_workout_session list" where
  "reconcile_workout rows = assign_sessions [] rows"

definition sessions_of_date :: "string \<Rightarrow> plan_workout_session list \<Rightarrow> plan_workout_session list" where
  "sessions_of_date d sessions = filter (\<lambda>s. log_date s = d) sessions"

definition rows_of_date :: "string \<Rightarrow> workout_plan_row list \<Rightarrow> workout_plan_row list" where
  "rows_of_date d rows = filter (\<lambda>r. row_log_date r = d) rows"

section \<open>A fixed host for closed instances\<close>

text \<open>
  The theorems below hold for every host. Their closed instances are stated for one fixed
  host; no instance depends on what its three built-ins return.
\<close>

definition probe_host :: host where
  "probe_host = \<lparr>StringToNumber = (\<lambda>s. NaN), NumberToString = (\<lambda>n. ''''),
                  toLocaleString = (\<lambda>x digits. '''')\<rparr>"

text \<open>
  A preview shaped like the one of the end-to-end test of the import dialog: one row whose
  date already has a check-in, one new row and one row that does not parse.
\<close>

definition sample_preview :: "preview_item list" where
  "sample_preview =
     [\<lparr>row_number = JNum (Fin 2), status = JStr ''conflict'', reason = JStr ''ya existe'',
       row = empty_obj(''log_date'' := JStr ''2099-02-10'')\<rparr>,
      \<lparr>row_number = JNum (Fin 3), status = JStr ''valid'', reason = JNull,
       row = empty_obj(''log_date'' := JStr ''2099-02-11'')\<rparr>,
      \<lparr>row_number = JNum (Fin 4), status = JStr ''invalid'', reason = JStr ''log_date invalida'',
       row = empty_obj(''log_date'' := JStr ''abc'')\<rparr>]"

text \<open>
  The accepted rows of a workout plan shaped like the one of the end-to-end test: a
  \<open>pesas\<close> row and a \<open>clase\<close> row for the first day, a \<open>pesas\<close> row for the second. Here the
  \<open>clase\<close> row carries an exercise.
\<close>

definition sample_workout_rows :: "workout_plan_row list" where
  "sample_workout_rows =
     [\<lparr>row_log_date = ''2099-05-01'', row_session_type = ''pesas'',
       row_exercises = [\<lparr>exercise_name = ''Hip Thrust'', target_sets = 4,
                          target_reps_min = 5, target_reps_max = 8\<rparr>]\<rparr>,
      \<lparr>row_log_date = ''2099-05-02'', row_session_type = ''pesas'',
       row_exercises = [\<lparr>exercise_name = ''Sentadilla'', target_sets = 4,
                          target_reps_min = 6, target_reps_max = 8\<rparr>]\<rparr>,
      \<lparr>row_log_date = ''2099-05-01'', row_session_type = ''clase'',
       row_exercises = [\<lparr>exercise_name = ''Remo'', target_sets = 3,
                          target_reps_min = 8, target_reps_max = 10\<rparr>]\<rparr>]"

section \<open>Properties of \<open>csvCell\<close>\<close>

lemma double_quotes_empty: "double_quotes s = [] \<Longrightarrow> s = []"
  by (cases s) (auto simp: double_quotes_def split: if_splits)

lemma undouble_double_quotes: "undouble (double_quotes s) = s"
proof (induction s)
  case Nil
  show ?case by (simp add: double_quotes_def)
next
  case (Cons c s)
  show ?case
  proof (cases "c = dquote")
    case True
    with Cons show ?thesis by (simp add: double_quotes_def)
  next
    case False
    show ?thesis
    proof (cases "double_quotes s")
      case Nil
      then have "s = []" by (rule double_quotes_empty)
      with False show ?thesis by (simp add: double_quotes_def)
    next
      case (Cons b cs)
      with False Cons.IH have "undouble (c # b # cs) = c # s" by simp
      with False Cons show ?thesis by (simp add: double_quotes_def)
    qed
  qed
qed

lemma csvDecode_unquoted: "dquote \<notin> set s \<Longrightarrow> csvDecode s = s"
  by (cases s) (auto simp: csvDecode_def)

lemma csvDecode_wrapped: "csvDecode (dquote # double_quotes s @ [dquote]) = s"
  by (simp add: csvDecode_def undouble_double_quotes)

lemma needs_quoting_iff:
  "needs_quoting s \<longleftrightarrow> dquote \<in> set s \<or> CHR '','' \<in> set s \<or> CHR 0x0A \<in> set s"
  by (auto simp: needs_quoting_def list_ex_iff)

lemma csvCell_JStr:
  "csvCell H (JStr s) = (if needs_quoting s then [dquote] @ double_quotes s @ [dquote] else s)"
  by (simp add: csvCell_def js_coalesce_def is_nullish_def)

text \<open>
  Claim C10. For every input string, \<open>csvCell\<close> returns the string enclosed in double quotes
  with every interior double quote doubled exactly when the string contains a double quote,
  a comma or a newline, and returns the string unchanged otherwise; reading the cell back
  (strip the outer quotes, undouble the quotes) gives the original string.
\<close>

theorem csvCell_encodes_and_roundtrips:
  "csvCell H (JStr s) =
     (if dquote \<in> set s \<or> CHR '','' \<in> set s \<or> CHR 0x0A \<in> set s
      then [dquote] @ double_quotes s @ [dquote] else s)
   \<and> (csvCell H (JStr s) = [dquote] @ double_quotes s @ [dquote]
        \<longleftrightarrow> dquote \<in> set s \<or> CHR '','' \<in> set s \<or> CHR 0x0A \<in> set s)
   \<and> csvDecode (csvCell H (JStr s)) = s"
proof -
  have neq: "s \<noteq> [dquote] @ double_quotes s @ [dquote]" if n: "\<not> needs_quoting s"
  proof
    assume e: "s = [dquote] @ double_quotes s @ [dquote]"
    then have "dquote \<in> set s" by (metis append_Cons list.set_intros(1))
    with n show False by (simp add: needs_quoting_iff)
  qed
  have dec: "csvDecode (csvCell H (JStr s)) = s"
  proof (cases "needs_quoting s")
    case True
    then show ?thesis by (simp add: csvCell_JStr csvDecode_wrapped)
  next
    case False
    then have "dquote \<notin> set s" by (simp add: needs_quoting_iff)
    with False show ?thesis by (simp add: csvCell_JStr csvDecode_unquoted)
  qed
  show ?thesis using neq dec by (auto simp: csvCell_JStr needs_quoting_iff)
qed

theorem csvCell_encodes_and_roundtrips_witness:
  "csvCell probe_host (JStr [CHR ''a'', CHR '','', CHR 0x22, CHR ''b''])
     = [CHR 0x22, CHR ''a'', CHR '','', CHR 0x22, CHR 0x22, CHR ''b'', CHR 0x22]
   \<and> csvDecode (csvCell probe_host (JStr [CHR ''a'', CHR '','', CHR 0x22, CHR ''b'']))
     = [CHR ''a'', CHR '','', CHR 0x22, CHR ''b'']"
  using csvCell_encodes_and_roundtrips [of probe_host "[CHR ''a'', CHR '','', CHR 0x22, CHR ''b'']"]
  by (auto simp add: double_quotes_def dquote_def)

section \<open>Properties of \<open>normalizeSessionType\<close>\<close>

lemma normalizeSessionType_fixes_pesas: "normalizeSessionType H (JStr ''pesas'') = ''pesas''"
  by code_simp

lemma normalizeSessionType_fixes_clase: "normalizeSessionType H (JStr ''clase'') = ''clase''"
  by code_simp

text \<open>
  Claim C4 as stated: after trimming and lowercasing, \<open>mixta\<close> becomes \<open>pesas\<close>, \<open>pesas\<close> and
  \<open>clase\<close> are kept, and any other value is invalid, not coerced to one of the two types.
  The function has no invalid outcome: the text \<open>yoga\<close> is returned as \<open>clase\<close>.
\<close>

theorem normalizeSessionType_coerces_unknown:
  "normalizeSessionType probe_host (JStr ''yoga'') = ''clase''"
  by code_simp

text \<open>
  Claim C4 as amended. For every value, the result is \<open>pesas\<close> or \<open>clase\<close>; it is \<open>pesas\<close>
  exactly when the trimmed, lowercased text is \<open>mixta\<close> or \<open>pesas\<close>, and \<open>clase\<close> for every
  other value, \<open>clase\<close> itself, the empty or missing value and any unknown text included.
  Normalising a result again changes nothing.
\<close>

theorem normalizeSessionType_two_way:
  "normalizeSessionType H v \<in> {''pesas'', ''clase''}
   \<and> (normalizeSessionType H v = ''pesas''
        \<longleftrightarrow> toLowerCase (trim (ToString H (js_or v (JStr '''')))) \<in> {''mixta'', ''pesas''})
   \<and> (normalizeSessionType H v = ''clase''
        \<longleftrightarrow> toLowerCase (trim (ToString H (js_or v (JStr '''')))) \<notin> {''mixta'', ''pesas''})
   \<and> normalizeSessionType H (JStr (normalizeSessionType H v)) = normalizeSessionType H v"
proof -
  have range: "normalizeSessionType H v \<in> {''pesas'', ''clase''}"
    by (simp add: normalizeSessionType_def Let_def)
  have pesas: "normalizeSessionType H v = ''pesas''
        \<longleftrightarrow> toLowerCase (trim (ToString H (js_or v (JStr '''')))) \<in> {''mixta'', ''pesas''}"
    by (simp add: normalizeSessionType_def Let_def)
  have clase: "normalizeSessionType H v = ''clase''
        \<longleftrightarrow> toLowerCase (trim (ToString H (js_or v (JStr '''')))) \<notin> {''mixta'', ''pesas''}"
    by (simp add: normalizeSessionType_def Let_def)
  have idem: "normalizeSessionType H (JStr (normalizeSessionType H v)) = normalizeSessionType H v"
  proof (cases "normalizeSessionType H v = ''pesas''")
    case True
    then show ?thesis by (simp only: normalizeSessionType_fixes_pesas)
  next
    case False
    with range have "normalizeSessionType H v = ''clase''" by blast
    then show ?thesis by (simp only: normalizeSessionType_fixes_clase)
  qed
  from range pesas clase idem show ?thesis by (intro conjI)
qed

theorem normalizeSessionType_two_way_witness:
  "normalizeSessionType probe_host (JStr '' Mixta '') = ''pesas''
   \<and> normalizeSessionType probe_host (JStr ''PESAS'') = ''pesas''
   \<and> normalizeSessionType probe_host (JStr ''clase'') = ''clase''
   \<and> normalizeSessionType probe_host JNull = ''clase''"
proof -
  have a: "toLowerCase (trim (ToString probe_host (js_or (JStr '' Mixta '') (JStr '''')))) = ''mixta''"
    by code_simp
  have b: "toLowerCase (trim (ToString probe_host (js_or (JStr ''PESAS'') (JStr '''')))) = ''pesas''"
    by code_simp
  have c: "toLowerCase (trim (ToString probe_host (js_or (JStr ''clase'') (JStr '''')))) = ''clase''"
    by code_simp
  have d: "toLowerCase (trim (ToString probe_host (js_or JNull (JStr '''')))) = ''''"
    by code_simp
  have "normalizeSessionType probe_host (JStr '' Mixta '') = ''pesas''"
    using normalizeSessionType_two_way [of probe_host "JStr '' Mixta ''", THEN conjunct2, THEN conjunct1]
    by (simp only: a) simp
  moreover have "normalizeSessionType probe_host (JStr ''PESAS'') = ''pesas''"
    using normalizeSessionType_two_way [of probe_host "JStr ''PESAS''", THEN conjunct2, THEN conjunct1]
    by (simp only: b) simp
  moreover have "normalizeSessionType probe_host (JStr ''clase'') = ''clase''"
    using normalizeSessionType_two_way [of probe_host "JStr ''clase''", THEN conjunct2, THEN conjunct2, THEN conjunct1]
    by (simp only: c) simp
  moreover have "normalizeSessionType probe_host JNull = ''clase''"
    using normalizeSessionType_two_way [of probe_host JNull, THEN conjunct2, THEN conjunct2, THEN conjunct1]
    by (simp only: d) simp
  ultimately show ?thesis by (intro conjI)
qed

section \<open>Properties of \<open>computeWHR\<close>\<close>

lemma binary64_zero: "binary64 0 = Fin 0"
  by (simp add: binary64_def)

lemma fmt3_zero: "fmt3 H (JNum (Fin 0)) = toLocaleString H 0 3"
  by (simp add: fmt3_def is_nullish_def formatLocaleNumber_def binary64_zero)








text \<open>
  Claim C9 says that a row whose \<open>waist_cm\<close> or \<open>hip_cm\<close> is missing or not numeric gets the
  placeholder. \<open>Number(null)\<close> is \<open>0\<close>, which \<open>Number.isFinite\<close> accepts: for a row with
  \<open>waist_cm: null\<close> and \<open>hip_cm: 98\<close> the function divides \<open>0\<close> by \<open>98\<close> and returns the
  formatted zero, not the placeholder.
\<close>

theorem computeWHR_null_waist_is_zero:
  "computeWHR H (empty_obj(''waist_cm'' := JNull, ''hip_cm'' := JNum (Fin 98)))
   = toLocaleString H 0 3"
  by (simp add: computeWHR_def binary64_zero fmt3_zero)

theorem computeWHR_null_waist_is_zero_witness:
  "computeWHR probe_host (empty_obj(''waist_cm'' := JNull, ''hip_cm'' := JNum (Fin 98)))
   = toLocaleString probe_host 0 3"
  by (rule computeWHR_null_waist_is_zero [of probe_host])

text \<open>The guard on the divisor itself holds: no division by a hip value \<open>\<le> 0\<close>.\<close>

lemma computeWHR_guards_divisor:
  "computeWHR H r \<noteq> emdash \<Longrightarrow> \<exists>h. ToNumber H (r ''hip_cm'') = Fin h \<and> 0 < h"
  by (cases "ToNumber H (r ''hip_cm'')") (auto simp: computeWHR_def Let_def split: if_splits)

section \<open>Properties of the adherence period figures\<close>

text \<open>
  Claim C7 says that a day without a score adds to neither the numerator nor the
  denominator of the period mean. \<open>Number(null)\<close> is \<open>0\<close> and passes \<open>Number.isFinite\<close>: with
  one day scored \<open>1\<close> and one day whose \<open>total_score\<close> is \<open>null\<close>, the mean shown is that of
  \<open>[1, 0]\<close>, one half, not \<open>1\<close>.
\<close>

theorem periodAvg_counts_null_total:
  "periodAvg (renderPlanAdherenceHistory H (Fin 7)
     \<lparr>window_days = JNum (Fin 7),
      items = [\<lparr>item_log_date = JStr ''2099-05-01'', diet_score = JNum (Fin 1),
                 workout_score = JNum (Fin 1), total_score = JNum (Fin 1)\<rparr>,
               \<lparr>item_log_date = JStr ''2099-05-02'', diet_score = JNull,
                 workout_score = JNull, total_score = JNull\<rparr>],
      scored_days = JNum (Fin 1), total_days = JNum (Fin 7)\<rparr>)
   = toLocaleString H (1 / 2) 2"
proof -
  have half: "js_div (Fin 1) (Fin 2) = Fin (1 / 2)"
    by (simp add: binary64_def binary_exponent_def round_half_even_def Let_def)
  show ?thesis
    by (simp add: renderPlanAdherenceHistory_def scoredValues_def formatPlanScore_def
          formatLocaleNumber_def Let_def half del: js_div.simps)
qed

theorem periodAvg_counts_null_total_witness:
  "periodAvg (renderPlanAdherenceHistory probe_host (Fin 7)
     \<lparr>window_days = JNum (Fin 7),
      items = [\<lparr>item_log_date = JStr ''2099-05-01'', diet_score = JNum (Fin 1),
                 workout_score = JNum (Fin 1), total_score = JNum (Fin 1)\<rparr>,
               \<lparr>item_log_date = JStr ''2099-05-02'', diet_score = JNull,
                 workout_score = JNull, total_score = JNull\<rparr>],
      scored_days = JNum (Fin 1), total_days = JNum (Fin 7)\<rparr>)
   = toLocaleString probe_host (1 / 2) 2"
  by (rule periodAvg_counts_null_total [of probe_host])

section \<open>Properties of \<open>planPillFromAdherenceScore\<close>\<close>

lemma scoreMatches_finite:
  "ToNumber H v = Fin x \<Longrightarrow> scoreMatches H v e = (\<bar>x - e\<bar> < 1 / 1000)"
  by (simp add: scoreMatches_def js_sub_def)

lemma scoreMatches_not_finite:
  "\<not> isFinite (ToNumber H v) \<Longrightarrow> \<not> scoreMatches H v e"
  by (cases "ToNumber H v") (simp_all add: scoreMatches_def js_sub_def)

text \<open>
  Claim C6. For every score value and every has-plan flag, the label is \<open>Sin plan\<close> when
  there is no plan, whatever the score; with a plan it is \<open>Cumplida\<close> when the score is
  within 0.001 of 1, \<open>Parcial\<close> within 0.001 of 0.5, \<open>No cumplida\<close> within 0.001 of 0, and
  \<open>Pendiente\<close> when the score is null (or undefined or the empty string) or matches none of
  the three values. "Within" is the strict comparison of \<open>scoreMatches\<close>.
\<close>

theorem planPill_label_table:
  "label (planPillFromAdherenceScore H scoreValue hasPlan) =
     (if \<not> truthy hasPlan then ''Sin plan''
      else if is_nullish scoreValue \<or> scoreValue = JStr '''' then ''Pendiente''
      else case ToNumber H scoreValue of
             Fin x \<Rightarrow>
               (if \<bar>x - 1\<bar> < 1 / 1000 then ''Cumplida''
                else if \<bar>x - 1 / 2\<bar> < 1 / 1000 then ''Parcial''
                else if \<bar>x - 0\<bar> < 1 / 1000 then ''No cumplida''
                else ''Pendiente'')
           | _ \<Rightarrow> ''Pendiente'')"
proof (cases "ToNumber H scoreValue")
  case (Fin x)
  then show ?thesis
    by (simp add: planPillFromAdherenceScore_def scoreMatches_finite)
next
  case NaN
  then have "\<And>e. \<not> scoreMatches H scoreValue e" by (simp add: scoreMatches_not_finite)
  with NaN show ?thesis by (simp add: planPillFromAdherenceScore_def)
next
  case PosInf
  then have "\<And>e. \<not> scoreMatches H scoreValue e" by (simp add: scoreMatches_not_finite)
  with PosInf show ?thesis by (simp add: planPillFromAdherenceScore_def)
next
  case NegInf
  then have "\<And>e. \<not> scoreMatches H scoreValue e" by (simp add: scoreMatches_not_finite)
  with NegInf show ?thesis by (simp add: planPillFromAdherenceScore_def)
qed

theorem planPill_label_table_witness:
  "label (planPillFromAdherenceScore probe_host (JNum (Fin 1)) (JBool False)) = ''Sin plan''
   \<and> label (planPillFromAdherenceScore probe_host JNull (JBool False)) = ''Sin plan''
   \<and> label (planPillFromAdherenceScore probe_host (JNum (Fin 1)) (JBool True)) = ''Cumplida''
   \<and> label (planPillFromAdherenceScore probe_host (JNum (Fin (1 / 2))) (JBool True)) = ''Parcial''
   \<and> label (planPillFromAdherenceScore probe_host (JNum (Fin 0)) (JBool True)) = ''No cumplida''
   \<and> label (planPillFromAdherenceScore probe_host JNull (JBool True)) = ''Pendiente''
   \<and> label (planPillFromAdherenceScore probe_host (JNum (Fin (3 / 4))) (JBool True)) = ''Pendiente''"
  using planPill_label_table [of probe_host "JNum (Fin 1)" "JBool False"]
        planPill_label_table [of probe_host JNull "JBool False"]
        planPill_label_table [of probe_host "JNum (Fin 1)" "JBool True"]
        planPill_label_table [of probe_host "JNum (Fin (1 / 2))" "JBool True"]
        planPill_label_table [of probe_host "JNum (Fin 0)" "JBool True"]
        planPill_label_table [of probe_host JNull "JBool True"]
        planPill_label_table [of probe_host "JNum (Fin (3 / 4))" "JBool True"]
  by (simp add: is_nullish_def)

section \<open>Properties of \<open>drawKpiDelta\<close>\<close>

lemma classList_add_member: "name \<in> set (classList_add name cl)"
  by (simp add: classList_add_def)

lemma classList_add_other:
  "other \<noteq> name \<Longrightarrow> other \<in> set (classList_add name cl) \<longleftrightarrow> other \<in> set cl"
  by (simp add: classList_add_def)

lemma classList_remove_member:
  "c \<in> set (classList_remove names cl) \<longleftrightarrow> c \<in> set cl \<and> c \<notin> set names"
  by (simp add: classList_remove_def)

lemma drawKpiDelta_unavailable:
  "is_nullish delta \<or> ToNumber H delta = NaN \<Longrightarrow>
   drawKpiDelta H meta (Some n) delta digits unit preferLower stableEps =
     Some \<lparr>classList = classList_add ''state-muted'' (classList_remove kpi_state_classes (classList n)),
           node_content = TextContent ''Sin comparativa previa''\<rparr>"
  by (simp add: drawKpiDelta_def Let_def)

lemma drawKpiDelta_zero:
  "0 \<le> stableEps \<Longrightarrow>
   drawKpiDelta H meta (Some n) (JNum (Fin 0)) digits unit preferLower stableEps =
     Some \<lparr>classList = classList_add ''state-equal'' (classList_remove kpi_state_classes (classList n)),
           node_content = InnerHTML (kpi_main_open @ ''Igual: sin cambios relevantes</span>'' @ meta)\<rparr>"
  by (simp add: drawKpiDelta_def Let_def is_nullish_def)

text \<open>
  Claim C3. With a tolerance \<open>stableEps \<ge> 0\<close>, as at the four call sites, a delta that is
  null or undefined, or that does not convert to a number, is drawn as the muted text
  \<open>Sin comparativa previa\<close> with class \<open>state-muted\<close>; the delta \<open>0\<close> is drawn as
  \<open>Igual: sin cambios relevantes\<close> with class \<open>state-equal\<close>. The two results differ in
  content and in class, so an unavailable delta is never shown as a zero delta.
\<close>

theorem drawKpiDelta_null_is_not_zero:
  assumes eps: "0 \<le> stableEps"
    and unavailable: "is_nullish delta \<or> ToNumber H delta = NaN"
  shows "\<exists>a b. drawKpiDelta H meta (Some n) delta digits unit preferLower stableEps = Some a
       \<and> drawKpiDelta H meta (Some n) (JNum (Fin 0)) digits unit preferLower stableEps = Some b
       \<and> node_content a = TextContent ''Sin comparativa previa''
       \<and> ''state-muted'' \<in> set (classList a) \<and> ''state-equal'' \<notin> set (classList a)
       \<and> node_content b = InnerHTML (kpi_main_open @ ''Igual: sin cambios relevantes</span>'' @ meta)
       \<and> ''state-equal'' \<in> set (classList b) \<and> ''state-muted'' \<notin> set (classList b)
       \<and> a \<noteq> b"
proof -
  define cl where "cl = classList_remove kpi_state_classes (classList n)"
  define a where "a = \<lparr>classList = classList_add ''state-muted'' cl,
               node_content = TextContent ''Sin comparativa previa''\<rparr>"
  define b where "b = \<lparr>classList = classList_add ''state-equal'' cl,
               node_content = InnerHTML (kpi_main_open @ ''Igual: sin cambios relevantes</span>'' @ meta)\<rparr>"
  have da: "drawKpiDelta H meta (Some n) delta digits unit preferLower stableEps = Some a"
    using drawKpiDelta_unavailable [OF unavailable] by (simp add: a_def cl_def)
  have db: "drawKpiDelta H meta (Some n) (JNum (Fin 0)) digits unit preferLower stableEps = Some b"
    using drawKpiDelta_zero [OF eps] by (simp add: b_def cl_def)
  have not_eq: "''state-equal'' \<notin> set cl"
    by (simp add: cl_def classList_remove_member kpi_state_classes_def)
  have not_mu: "''state-muted'' \<notin> set cl"
    by (simp add: cl_def classList_remove_member kpi_state_classes_def)
  have a_eq: "''state-equal'' \<notin> set (classList a)"
    using not_eq by (simp add: a_def classList_add_other)
  have b_mu: "''state-muted'' \<notin> set (classList b)"
    using not_mu by (simp add: b_def classList_add_other)
  have "node_content a \<noteq> node_content b" by (simp add: a_def b_def)
  then have ab: "a \<noteq> b" by auto
  have ca: "node_content a = TextContent ''Sin comparativa previa''" by (simp add: a_def)
  have cb: "node_content b = InnerHTML (kpi_main_open @ ''Igual: sin cambios relevantes</span>'' @ meta)"
    by (simp add: b_def)
  have ma: "''state-muted'' \<in> set (classList a)" by (simp add: a_def classList_add_member)
  have mb: "''state-equal'' \<in> set (classList b)" by (simp add: b_def classList_add_member)
  from da db ca ma a_eq cb mb b_mu ab show ?thesis by blast
qed

theorem drawKpiDelta_null_is_not_zero_witness:
  "\<exists>a b. drawKpiDelta probe_host '''' (Some \<lparr>classList = [''kpi-delta'', ''state-better''],
                node_content = InnerHTML ''''\<rparr>) JNull 1 '' kg'' True (1 / 10) = Some a
       \<and> drawKpiDelta probe_host '''' (Some \<lparr>classList = [''kpi-delta'', ''state-better''],
                node_content = InnerHTML ''''\<rparr>) (JNum (Fin 0)) 1 '' kg'' True (1 / 10) = Some b
       \<and> node_content a = TextContent ''Sin comparativa previa''
       \<and> ''state-muted'' \<in> set (classList a)
       \<and> ''state-equal'' \<in> set (classList b)
       \<and> a \<noteq> b"
proof -
  have e: "(0::real) \<le> 1 / 10" by simp
  have u: "is_nullish JNull \<or> ToNumber probe_host JNull = NaN" by (simp add: is_nullish_def)
  from drawKpiDelta_null_is_not_zero [OF e u, of "''''" "\<lparr>classList = [''kpi-delta'', ''state-better''],
                node_content = InnerHTML ''''\<rparr>" 1 "'' kg''" True]
  show ?thesis by blast
qed

section \<open>Properties of the check-in import dialog\<close>

lemma filter_valid_known:
  "\<forall>r \<in> set rows. has_known_status r \<Longrightarrow>
   filter (is_valid_status H) rows = filter (\<lambda>r. status r = JStr ''valid'') rows"
proof (rule filter_cong[OF refl])
  fix r assume k: "\<forall>r \<in> set rows. has_known_status r" and "r \<in> set rows"
  then have "has_known_status r" by blast
  then consider "status r = JStr ''valid''" | "status r = JStr ''imported''"
    | "status r = JStr ''conflict''" | "status r = JStr ''invalid''"
    by (auto simp: has_known_status_def known_statuses_def)
  then show "is_valid_status H r = (status r = JStr ''valid'')"
  proof cases
    case 1 then show ?thesis by (simp add: is_valid_status_def js_or_def) code_simp
  next
    case 2 then show ?thesis by (simp add: is_valid_status_def js_or_def) code_simp
  next
    case 3 then show ?thesis by (simp add: is_valid_status_def js_or_def) code_simp
  next
    case 4 then show ?thesis by (simp add: is_valid_status_def js_or_def) code_simp
  qed
qed

lemma renderImportPreview_button:
  "previewTable ui \<Longrightarrow> importApplyBtn ui \<noteq> None \<Longrightarrow>
   importApplyBtn (renderImportPreview H rows ui) = Some (filter (is_valid_status H) rows = [])"
  by (cases "importApplyBtn ui") (auto simp: renderImportPreview_def set_disabled_def Let_def)

lemma renderImportPreview_rows:
  "importPreviewRows (renderImportPreview H rows ui) = rows"
  by (simp add: renderImportPreview_def Let_def)

text \<open>
  Claim C1. For every preview whose rows carry the statuses the server writes, on the page
  that has the preview table and the apply button: after the preview is rendered the apply
  button is enabled if and only if some row has status \<open>valid\<close>, and applying posts exactly
  the rows with status \<open>valid\<close>, in order, each as its \<open>row_number\<close> and \<open>row\<close>; rows
  with status \<open>conflict\<close> or \<open>invalid\<close> are filtered out, and with no valid row nothing is
  posted.
\<close>

theorem apply_posts_exactly_valid_rows:
  assumes known: "\<forall>r \<in> set rows. has_known_status r"
    and table: "previewTable ui"
    and button: "importApplyBtn ui \<noteq> None"
  shows "(apply_enabled (renderImportPreview H rows ui)
            \<longleftrightarrow> (\<exists>r \<in> set rows. status r = JStr ''valid''))
       \<and> applyDietImport H (renderImportPreview H rows ui) =
           (if \<exists>r \<in> set rows. status r = JStr ''valid''
            then Some (map to_apply_row (filter (\<lambda>r. status r = JStr ''valid'') rows))
            else None)"
proof -
  have f: "filter (is_valid_status H) rows = filter (\<lambda>r. status r = JStr ''valid'') rows"
    using known by (rule filter_valid_known)
  have e: "filter (\<lambda>r. status r = JStr ''valid'') rows = [] \<longleftrightarrow> \<not> (\<exists>r \<in> set rows. status r = JStr ''valid'')"
    by (simp add: filter_empty_conv)
  have en: "apply_enabled (renderImportPreview H rows ui) \<longleftrightarrow> (\<exists>r \<in> set rows. status r = JStr ''valid'')"
    using renderImportPreview_button [OF table button, of H rows] f e
    by (simp add: apply_enabled_def)
  have ap: "applyDietImport H (renderImportPreview H rows ui) =
           (if \<exists>r \<in> set rows. status r = JStr ''valid''
            then Some (map to_apply_row (filter (\<lambda>r. status r = JStr ''valid'') rows))
            else None)"
    using f e by (simp add: applyDietImport_def renderImportPreview_rows)
  from en ap show ?thesis by (rule conjI)
qed

theorem apply_posts_exactly_valid_rows_witness:
  "apply_enabled (renderImportPreview probe_host sample_preview
       \<lparr>importPreviewRows = [], importApplyBtn = Some True, previewTable = True\<rparr>)
   \<and> applyDietImport probe_host (renderImportPreview probe_host sample_preview
       \<lparr>importPreviewRows = [], importApplyBtn = Some True, previewTable = True\<rparr>)
     = Some [\<lparr>apply_row_number = JNum (Fin 3),
              apply_row_data = empty_obj(''log_date'' := JStr ''2099-02-11'')\<rparr>]"
proof -
  let ?ui = "\<lparr>importPreviewRows = [], importApplyBtn = Some True, previewTable = True\<rparr>"
  have k: "\<forall>r \<in> set sample_preview. has_known_status r"
    by (simp add: sample_preview_def has_known_status_def known_statuses_def)
  have t: "previewTable ?ui" by simp
  have b: "importApplyBtn ?ui \<noteq> None" by simp
  have v: "\<exists>r \<in> set sample_preview. status r = JStr ''valid''"
    by (simp add: sample_preview_def)
  have m: "map to_apply_row (filter (\<lambda>r. status r = JStr ''valid'') sample_preview)
           = [\<lparr>apply_row_number = JNum (Fin 3),
               apply_row_data = empty_obj(''log_date'' := JStr ''2099-02-11'')\<rparr>]"
    by (simp add: sample_preview_def to_apply_row_def)
  from apply_posts_exactly_valid_rows [OF k t b, of probe_host] v m
  show ?thesis by simp
qed

section \<open>Properties of the plan import reconciler\<close>

lemma count_list_filter_same: "count_list (filter (\<lambda>x. x = d) seen) d = count_list seen d"
  by (induction seen) auto

lemma sessions_of_date_assign:
  "sessions_of_date d (assign_sessions seen rows) =
     assign_sessions (filter (\<lambda>x. x = d) seen) (rows_of_date d rows)"
proof (induction rows arbitrary: seen)
  case Nil
  show ?case by (simp add: sessions_of_date_def rows_of_date_def)
next
  case (Cons r rs)
  have ih: "sessions_of_date d (assign_sessions (seen @ [row_log_date r]) rs) =
     assign_sessions (filter (\<lambda>x. x = d) (seen @ [row_log_date r])) (rows_of_date d rs)"
    by (rule Cons.IH)
  show ?case
  proof (cases "row_log_date r = d")
    case True
    have "sessions_of_date d (assign_sessions seen (r # rs)) =
            make_session (count_list seen d) r
              # sessions_of_date d (assign_sessions (seen @ [d]) rs)"
      using True by (simp add: sessions_of_date_def make_session_def)
    also have "\<dots> = make_session (count_list (filter (\<lambda>x. x = d) seen) d) r
              # assign_sessions (filter (\<lambda>x. x = d) seen @ [d]) (rows_of_date d rs)"
      using ih True by (simp add: count_list_filter_same)
    also have "\<dots> = assign_sessions (filter (\<lambda>x. x = d) seen) (rows_of_date d (r # rs))"
      using True by (simp add: rows_of_date_def)
    finally show ?thesis .
  next
    case False
    have "sessions_of_date d (assign_sessions seen (r # rs)) =
            sessions_of_date d (assign_sessions (seen @ [row_log_date r]) rs)"
      using False by (simp add: sessions_of_date_def make_session_def)
    also have "\<dots> = assign_sessions (filter (\<lambda>x. x = d) seen) (rows_of_date d rs)"
      using ih False by simp
    also have "\<dots> = assign_sessions (filter (\<lambda>x. x = d) seen) (rows_of_date d (r # rs))"
      using False by (simp add: rows_of_date_def)
    finally show ?thesis .
  qed
qed

lemma session_id_first: "''S'' @ zeroPad (0 + 1) 2 = ''S01''"
  by code_simp

lemma session_id_second: "''S'' @ zeroPad (1 + 1) 2 = ''S02''"
  by code_simp

text \<open>
  Claim C2. When the rows of a workout plan dated \<open>d\<close> are, in file order, a \<open>pesas\<close> row
  and then a \<open>clase\<close> row (rows of other dates may stand anywhere between them), the import
  creates exactly two sessions for \<open>d\<close>: \<open>S01\<close> for the \<open>pesas\<close> row with its exercises and
  \<open>S02\<close> for the \<open>clase\<close> row with no exercise, whatever exercises the row carried.
\<close>

theorem two_sessions_same_date:
  assumes two: "rows_of_date d rows = [r1, r2]"
    and first: "row_session_type r1 = ''pesas''"
    and second: "row_session_type r2 = ''clase''"
  shows "sessions_of_date d (reconcile_workout rows) =
     [\<lparr>log_date = d, plan_session_id = ''S01'', session_type = ''pesas'',
       exercises = row_exercises r1\<rparr>,
      \<lparr>log_date = d, plan_session_id = ''S02'', session_type = ''clase'',
       exercises = []\<rparr>]"
proof -
  have "r1 \<in> set (rows_of_date d rows)" and "r2 \<in> set (rows_of_date d rows)"
    using two by simp_all
  then have d1: "row_log_date r1 = d" and d2: "row_log_date r2 = d"
    by (simp_all add: rows_of_date_def)
  have "sessions_of_date d (reconcile_workout rows) = assign_sessions [] [r1, r2]"
    using sessions_of_date_assign [of d "[]" rows] two by (simp add: reconcile_workout_def)
  also have "\<dots> = [make_session 0 r1, make_session 1 r2]"
    using d1 d2 by simp
  also have "\<dots> = [\<lparr>log_date = d, plan_session_id = ''S01'', session_type = ''pesas'',
       exercises = row_exercises r1\<rparr>,
      \<lparr>log_date = d, plan_session_id = ''S02'', session_type = ''clase'',
       exercises = []\<rparr>]"
    using d1 d2 first second
    by (simp only: make_session_def session_id_first session_id_second) simp
  finally show ?thesis .
qed

theorem two_sessions_same_date_witness:
  "sessions_of_date ''2099-05-01'' (reconcile_workout sample_workout_rows) =
     [\<lparr>log_date = ''2099-05-01'', plan_session_id = ''S01'', session_type = ''pesas'',
       exercises = [\<lparr>exercise_name = ''Hip Thrust'', target_sets = 4,
                      target_reps_min = 5, target_reps_max = 8\<rparr>]\<rparr>,
      \<lparr>log_date = ''2099-05-01'', plan_session_id = ''S02'', session_type = ''clase'',
       exercises = []\<rparr>]"
proof -
  let ?r1 = "\<lparr>row_log_date = ''2099-05-01'', row_session_type = ''pesas'',
       row_exercises = [\<lparr>exercise_name = ''Hip Thrust'', target_sets = 4,
                          target_reps_min = 5, target_reps_max = 8\<rparr>]\<rparr>"
  let ?r2 = "\<lparr>row_log_date = ''2099-05-01'', row_session_type = ''clase'',
       row_exercises = [\<lparr>exercise_name = ''Remo'', target_sets = 3,
                          target_reps_min = 8, target_reps_max = 10\<rparr>]\<rparr>"
  have two: "rows_of_date ''2099-05-01'' sample_workout_rows = [?r1, ?r2]"
    by (simp add: rows_of_date_def sample_workout_rows_def)
  have first: "row_session_type ?r1 = ''pesas''" by simp
  have second: "row_session_type ?r2 = ''clase''" by simp
  from two_sessions_same_date [OF two first second] show ?thesis by simp
qed

end
